theory Spec2Isabelle
  imports Complex_Main "HOL-Library.AList" "HOL-Library.Multiset" "HOL-Library.Sublist"
begin

section \<open>Performance regression analysis: the data model\<close>

text \<open>
  This theory embeds \<^verbatim>\<open>scripts/performance/regression-analysis.py\<close>, class
  \<^verbatim>\<open>PerformanceRegressionAnalyzer\<close> and \<^verbatim>\<open>main\<close>.

  Modelling decisions.
  \<^item> The input documents are the JSON summaries the four producers write. Each JSON
    object is a record whose fields are optional (\<open>None\<close> is an absent key), so every
    \<^verbatim>\<open>d.get(k, default)\<close> of the source is \<open>get_or (k d) default\<close>. A field that
    holds a value of another JSON type than its producer writes (a string where a
    score is expected, say) is outside this model; on such inputs the Python raises
    \<^verbatim>\<open>TypeError\<close> or \<^verbatim>\<open>AttributeError\<close>.
  \<^item> JSON numbers are rationals: Python's \<^verbatim>\<open>int\<close> and \<^verbatim>\<open>float\<close>
    arithmetic is taken as exact, and the literals \<^verbatim>\<open>0.2\<close>, \<^verbatim>\<open>0.5\<close>,
    \<^verbatim>\<open>0.01\<close> as the fractions they denote. Rounding of binary floating point is
    not modelled. The bundle's \<^verbatim>\<open>totalSize\<close> is a byte count and is an integer.
  \<^item> A Python \<^verbatim>\<open>dict\<close> that is iterated is an association list in insertion order;
    \<^verbatim>\<open>d[k] = v\<close> is \<open>AList.update k v d\<close>, which replaces the value of a key that is
    already there in place and appends a new key at the end, as Python does.
  \<^item> Strings are byte lists; the non-ASCII characters of the advisory messages are
    written as their UTF-8 bytes. Only equality of messages is ever used.
  \<^item> The wall clock (\<^verbatim>\<open>datetime.now().isoformat()\<close>) is an argument.
\<close>

type_synonym number = rat

definition get_or :: "'a option \<Rightarrow> 'a \<Rightarrow> 'a" where
  "get_or field dflt = (case field of None \<Rightarrow> dflt | Some v \<Rightarrow> v)"

text \<open>One page-audit summary: \<open>scores\<close> holds the numeric entries of the object by key.\<close>

record lighthouse_item =
  device :: "string option"
  page :: "string option"
  scores :: "string \<Rightarrow> number option"

text \<open>
  One load-test summary: \<^verbatim>\<open>item['metrics'][name][stat]\<close>, every level optional.
\<close>

record load_item =
  scenario :: "string option"
  metrics :: "(string \<Rightarrow> (string \<Rightarrow> number option) option) option"

record bench_result =
  duration :: "number option"
  title :: "string option"

text \<open>
  The object of one benchmark category. \<open>test_other_keys\<close> tells whether the object
  has any key besides \<^verbatim>\<open>testResults\<close>: the source tests the object for emptiness.
\<close>

record bench_test =
  testResults :: "bench_result list option"
  test_other_keys :: bool

record bundle_object =
  totalSize :: "int option"
  bundle_other_keys :: bool

record snapshot =
  lighthouse :: "lighthouse_item list option"
  loadTests :: "load_item list option"
  benchmarks :: "(string \<Rightarrow> bench_test option) option"
  bundle_summary :: "bundle_object option"
  timestamp :: "string option"

record regression =
  rtype :: string
  metric :: string
  baseline :: number
  current :: number
  change :: number
  severity :: string
  description :: string

record report =
  summary :: string
  regressions :: "regression list"
  criticalRegressions :: "regression list"
  moderateRegressions :: "regression list"
  recommendations :: "string list"
  report_threshold :: number
  report_timestamp :: string

text \<open>
  The analyzer object. Its attributes \<^verbatim>\<open>regressions\<close> and \<^verbatim>\<open>improvements\<close>
  are set to \<^verbatim>\<open>[]\<close> by the constructor and never read or written again; they are
  left out.
\<close>

record analyzer =
  threshold :: number
  baseline_data :: snapshot
  current_data :: snapshot

definition empty_snapshot :: snapshot where
  "empty_snapshot =
     \<lparr>lighthouse = None, loadTests = None, benchmarks = None, bundle_summary = None, timestamp = None\<rparr>"

definition init :: "number \<Rightarrow> analyzer" where
  "init th = \<lparr>threshold = th, baseline_data = empty_snapshot, current_data = empty_snapshot\<rparr>"

definition empty_test :: bench_test where
  "empty_test = \<lparr>testResults = None, test_other_keys = False\<rparr>"

definition test_is_empty :: "bench_test \<Rightarrow> bool" where
  "test_is_empty t \<longleftrightarrow> testResults t = None \<and> \<not> test_other_keys t"

definition empty_bundle :: bundle_object where
  "empty_bundle = \<lparr>totalSize = None, bundle_other_keys = False\<rparr>"

definition bundle_is_empty :: "bundle_object \<Rightarrow> bool" where
  "bundle_is_empty b \<longleftrightarrow> totalSize b = None \<and> \<not> bundle_other_keys b"

section \<open>Formatting\<close>

text \<open>\<^verbatim>\<open>str(n)\<close> of a non-negative and of any integer.\<close>

definition digit_char :: "nat \<Rightarrow> char" where
  "digit_char d = ''0123456789'' ! d"

fun str_nat :: "nat \<Rightarrow> string" where
  "str_nat n = (if n < 10 then [digit_char n] else str_nat (n div 10) @ [digit_char (n mod 10)])"

declare str_nat.simps [simp del]

definition str_int :: "int \<Rightarrow> string" where
  "str_int i = (if i < 0 then ''-'' @ str_nat (nat (- i)) else str_nat (nat i))"

text \<open>
  The format specification \<^verbatim>\<open>.1%\<close>: the value times 100 with one digit after the
  point, ties rounded to even, then a percent sign; a negative value keeps its sign
  also when it rounds to zero.
\<close>

definition round_half_even :: "rat \<Rightarrow> int" where
  "round_half_even x =
     (let f = \<lfloor>x\<rfloor>; d = x - of_int f
      in if d < 1 / 2 then f else if 1 / 2 < d then f + 1 else if even f then f else f + 1)"

definition format_percent1 :: "number \<Rightarrow> string" where
  "format_percent1 x =
     (let t = nat (round_half_even (\<bar>x\<bar> * 1000))
      in (if x < 0 then ''-'' else []) @ str_nat (t div 10) @ ''.'' @ str_nat (t mod 10) @ ''%'')"

section \<open>The four comparators\<close>

subsection \<open>Page audits\<close>

definition lighthouse_key :: "lighthouse_item \<Rightarrow> string" where
  "lighthouse_key item = get_or (device item) ''unknown'' @ ''-'' @ get_or (page item) ''unknown''"

definition group_lighthouse :: "lighthouse_item list \<Rightarrow> (string \<times> lighthouse_item) list" where
  "group_lighthouse items = foldl (\<lambda>grouped item. AList.update (lighthouse_key item) item grouped) [] items"

definition lighthouse_metrics :: "string list" where
  "lighthouse_metrics = [''performance'', ''accessibility'', ''bestPractices'', ''seo'']"

text \<open>The body of the inner loop, lines 125 to 141: \<open>regs\<close> is the list built so far.\<close>

definition lighthouse_metric_step ::
  "number \<Rightarrow> string \<Rightarrow> lighthouse_item \<Rightarrow> lighthouse_item \<Rightarrow> regression list \<Rightarrow> string \<Rightarrow> regression list"
where
  "lighthouse_metric_step th key baseline_item current_item regs m =
     (let baseline_value = get_or (scores baseline_item m) 0;
          current_value = get_or (scores current_item m) 0
      in if baseline_value > 0
         then (let chg = (baseline_value - current_value) / baseline_value
               in if chg > th
                  then regs @
                    [\<lparr>rtype = ''lighthouse'',
                      metric = key @ ''-'' @ m,
                      baseline = baseline_value,
                      current = current_value,
                      change = chg,
                      severity = (if chg > 0.2 then ''critical'' else ''moderate''),
                      description = ''Lighthouse '' @ m @ '' degraded by '' @ format_percent1 chg
                                    @ '' for '' @ key\<rparr>]
                  else regs)
         else regs)"

text \<open>The body of the outer loop, lines 118 to 141.\<close>

definition lighthouse_key_step ::
  "number \<Rightarrow> (string \<times> lighthouse_item) list \<Rightarrow> regression list \<Rightarrow> string \<times> lighthouse_item
     \<Rightarrow> regression list"
where
  "lighthouse_key_step th current_grouped regs entry =
     (case map_of current_grouped (fst entry) of
        None \<Rightarrow> regs
      | Some current_item \<Rightarrow>
          foldl (lighthouse_metric_step th (fst entry) (snd entry) current_item) regs lighthouse_metrics)"

text \<open>The two dictionaries built by lines 101 to 113.\<close>

definition lighthouse_baseline_grouped :: "analyzer \<Rightarrow> (string \<times> lighthouse_item) list" where
  "lighthouse_baseline_grouped self = group_lighthouse (get_or (lighthouse (baseline_data self)) [])"

definition lighthouse_current_grouped :: "analyzer \<Rightarrow> (string \<times> lighthouse_item) list" where
  "lighthouse_current_grouped self = group_lighthouse (get_or (lighthouse (current_data self)) [])"

definition analyze_lighthouse_regression :: "analyzer \<Rightarrow> regression list" where
  "analyze_lighthouse_regression self =
     foldl (lighthouse_key_step (threshold self) (lighthouse_current_grouped self)) []
       (lighthouse_baseline_grouped self)"

subsection \<open>Load tests\<close>

definition load_key :: "load_item \<Rightarrow> string" where
  "load_key item = get_or (scenario item) ''unknown''"

definition group_load :: "load_item list \<Rightarrow> (string \<times> load_item) list" where
  "group_load items = foldl (\<lambda>grouped item. AList.update (load_key item) item grouped) [] items"

text \<open>\<^verbatim>\<open>item.get('metrics', {}).get(name, {}).get(stat, 0)\<close>\<close>

definition load_stat :: "load_item \<Rightarrow> string \<Rightarrow> string \<Rightarrow> number" where
  "load_stat item name stat =
     get_or (get_or (get_or (metrics item) (\<lambda>_. None) name) (\<lambda>_. None) stat) 0"

definition load_response_time_step ::
  "number \<Rightarrow> string \<Rightarrow> load_item \<Rightarrow> load_item \<Rightarrow> regression list \<Rightarrow> regression list"
where
  "load_response_time_step th scen baseline_item current_item regs =
     (let baseline_rt = load_stat baseline_item ''http_req_duration'' ''avg'';
          current_rt = load_stat current_item ''http_req_duration'' ''avg''
      in if baseline_rt > 0
         then (let rt_change = (current_rt - baseline_rt) / baseline_rt
               in if rt_change > th
                  then regs @
                    [\<lparr>rtype = ''load_test'',
                      metric = scen @ ''-response_time'',
                      baseline = baseline_rt,
                      current = current_rt,
                      change = rt_change,
                      severity = (if rt_change > 0.5 then ''critical'' else ''moderate''),
                      description = ''Response time increased by '' @ format_percent1 rt_change
                                    @ '' for '' @ scen @ '' scenario''\<rparr>]
                  else regs)
         else regs)"

definition load_error_rate_step ::
  "string \<Rightarrow> load_item \<Rightarrow> load_item \<Rightarrow> regression list \<Rightarrow> regression list"
where
  "load_error_rate_step scen baseline_item current_item regs =
     (let baseline_errors = load_stat baseline_item ''http_req_failed'' ''rate'';
          current_errors = load_stat current_item ''http_req_failed'' ''rate'';
          error_change = current_errors - baseline_errors
      in if error_change > 0.01
         then regs @
           [\<lparr>rtype = ''load_test'',
             metric = scen @ ''-error_rate'',
             baseline = baseline_errors,
             current = current_errors,
             change = error_change,
             severity = ''critical'',
             description = ''Error rate increased by '' @ format_percent1 error_change
                           @ '' for '' @ scen @ '' scenario''\<rparr>]
         else regs)"

text \<open>The loop body, lines 156 to 196: the response-time check, then the error-rate check.\<close>

definition load_scenario_step ::
  "number \<Rightarrow> (string \<times> load_item) list \<Rightarrow> regression list \<Rightarrow> string \<times> load_item \<Rightarrow> regression list"
where
  "load_scenario_step th current_grouped regs entry =
     (case map_of current_grouped (fst entry) of
        None \<Rightarrow> regs
      | Some current_item \<Rightarrow>
          load_error_rate_step (fst entry) (snd entry) current_item
            (load_response_time_step th (fst entry) (snd entry) current_item regs))"

text \<open>The two dictionaries built by lines 149 to 154.\<close>

definition load_baseline_grouped :: "analyzer \<Rightarrow> (string \<times> load_item) list" where
  "load_baseline_grouped self = group_load (get_or (loadTests (baseline_data self)) [])"

definition load_current_grouped :: "analyzer \<Rightarrow> (string \<times> load_item) list" where
  "load_current_grouped self = group_load (get_or (loadTests (current_data self)) [])"

definition analyze_load_test_regression :: "analyzer \<Rightarrow> regression list" where
  "analyze_load_test_regression self =
     foldl (load_scenario_step (threshold self) (load_current_grouped self)) []
       (load_baseline_grouped self)"

subsection \<open>Benchmarks\<close>

definition benchmark_types :: "string list" where
  "benchmark_types = [''memory'', ''cpu'', ''algorithm'']"

text \<open>
  The body of the loop over \<^verbatim>\<open>enumerate(baseline_results)\<close>, lines 218 to 240. The
  read \<^verbatim>\<open>current_results[i]\<close> is guarded by the test on the line before it.
\<close>

definition benchmark_result_step ::
  "number \<Rightarrow> string \<Rightarrow> bench_result list \<Rightarrow> regression list \<Rightarrow> nat \<times> bench_result \<Rightarrow> regression list"
where
  "benchmark_result_step th test_type current_results regs entry =
     (let i = fst entry; baseline_result = snd entry
      in if i \<ge> length current_results then regs
         else (let current_result = current_results ! i;
                   baseline_time = get_or (duration baseline_result) 0;
                   current_time = get_or (duration current_result) 0
               in if baseline_time > 0
                  then (let time_change = (current_time - baseline_time) / baseline_time
                        in if time_change > th
                           then (let test_name = get_or (title baseline_result)
                                                   (test_type @ ''-test-'' @ str_nat i)
                                 in regs @
                                   [\<lparr>rtype = ''benchmark'',
                                     metric = test_type @ ''-'' @ test_name,
                                     baseline = baseline_time,
                                     current = current_time,
                                     change = time_change,
                                     severity = ''moderate'',
                                     description = ''Benchmark '' @ test_name
                                       @ '' execution time increased by ''
                                       @ format_percent1 time_change\<rparr>])
                           else regs)
                  else regs))"

definition benchmark_type_step ::
  "number \<Rightarrow> (string \<Rightarrow> bench_test option) \<Rightarrow> (string \<Rightarrow> bench_test option) \<Rightarrow> regression list
     \<Rightarrow> string \<Rightarrow> regression list"
where
  "benchmark_type_step th baseline_benchmarks current_benchmarks regs test_type =
     (let baseline_test = get_or (baseline_benchmarks test_type) empty_test;
          current_test = get_or (current_benchmarks test_type) empty_test
      in if test_is_empty baseline_test \<or> test_is_empty current_test then regs
         else (let baseline_results = get_or (testResults baseline_test) [];
                   current_results = get_or (testResults current_test) []
               in foldl (benchmark_result_step th test_type current_results) regs
                    (enumerate 0 baseline_results)))"

definition analyze_benchmark_regression :: "analyzer \<Rightarrow> regression list" where
  "analyze_benchmark_regression self =
     (let baseline_benchmarks = get_or (benchmarks (baseline_data self)) (\<lambda>_. None);
          current_benchmarks = get_or (benchmarks (current_data self)) (\<lambda>_. None)
      in foldl (benchmark_type_step (threshold self) baseline_benchmarks current_benchmarks) []
           benchmark_types)"

subsection \<open>Bundle size\<close>

definition analyze_bundle_regression :: "analyzer \<Rightarrow> regression list" where
  "analyze_bundle_regression self =
     (let baseline_bundle = get_or (bundle_summary (baseline_data self)) empty_bundle;
          current_bundle = get_or (bundle_summary (current_data self)) empty_bundle
      in if bundle_is_empty baseline_bundle \<or> bundle_is_empty current_bundle then []
         else (let baseline_size = get_or (totalSize baseline_bundle) 0;
                   current_size = get_or (totalSize current_bundle) 0
               in if baseline_size > 0
                  then (let size_change = of_int (current_size - baseline_size) / of_int baseline_size
                        in if size_change > threshold self
                           then [\<lparr>rtype = ''bundle'',
                                  metric = ''total_size'',
                                  baseline = of_int baseline_size,
                                  current = of_int current_size,
                                  change = size_change,
                                  severity = ''moderate'',
                                  description = ''Bundle size increased by ''
                                    @ format_percent1 size_change @ '' (''
                                    @ str_int (current_size - baseline_size) @ '' bytes)''\<rparr>]
                           else [])
                  else []))"

section \<open>Recommendations and the report\<close>

definition msg_bundle :: string where
  "msg_bundle = [CHR 0xF0, CHR 0x9F, CHR 0x93, CHR 0xA6] @
     '' Bundle size increased - consider code splitting, tree shaking, or dependency analysis''"

definition msg_lighthouse :: string where
  "msg_lighthouse = [CHR 0xF0, CHR 0x9F, CHR 0x94, CHR 0x8D] @
     '' Lighthouse scores degraded - review Core Web Vitals, optimize images, and minimize JavaScript''"

definition msg_load_test :: string where
  "msg_load_test = [CHR 0xE2, CHR 0x9A, CHR 0xA1] @
     '' Load test performance degraded - check database queries, API responses, and server resources''"

definition msg_benchmark :: string where
  "msg_benchmark = [CHR 0xF0, CHR 0x9F, CHR 0xA7, CHR 0xAE] @
     '' Benchmark performance degraded - review algorithm implementations and memory usage''"

definition msg_critical :: string where
  "msg_critical = [CHR 0xF0, CHR 0x9F, CHR 0x9A, CHR 0xA8] @
     '' Critical regressions detected - consider blocking deployment until resolved''"

definition msg_none :: string where
  "msg_none = [CHR 0xE2, CHR 0x9C, CHR 0x85] @
     '' No significant performance regressions detected''"

definition generate_recommendations :: "regression list \<Rightarrow> string list" where
  "generate_recommendations regs =
     (let recs = [];
          bundle_regressions = filter (\<lambda>r. rtype r = ''bundle'') regs;
          recs = (if bundle_regressions \<noteq> [] then recs @ [msg_bundle] else recs);
          lighthouse_regressions = filter (\<lambda>r. rtype r = ''lighthouse'') regs;
          recs = (if lighthouse_regressions \<noteq> [] then recs @ [msg_lighthouse] else recs);
          load_regressions = filter (\<lambda>r. rtype r = ''load_test'') regs;
          recs = (if load_regressions \<noteq> [] then recs @ [msg_load_test] else recs);
          benchmark_regressions = filter (\<lambda>r. rtype r = ''benchmark'') regs;
          recs = (if benchmark_regressions \<noteq> [] then recs @ [msg_benchmark] else recs);
          critical_regressions = filter (\<lambda>r. severity r = ''critical'') regs;
          recs = (if critical_regressions \<noteq> [] then recs @ [msg_critical] else recs)
      in if recs = [] then recs @ [msg_none] else recs)"

definition analyze_regressions :: "analyzer \<Rightarrow> string \<Rightarrow> report" where
  "analyze_regressions self now =
     (let all_regressions = [];
          all_regressions = all_regressions @ analyze_lighthouse_regression self;
          all_regressions = all_regressions @ analyze_load_test_regression self;
          all_regressions = all_regressions @ analyze_benchmark_regression self;
          all_regressions = all_regressions @ analyze_bundle_regression self;
          critical_regressions = filter (\<lambda>r. severity r = ''critical'') all_regressions;
          moderate_regressions = filter (\<lambda>r. severity r = ''moderate'') all_regressions;
          summary_text = ''Found '' @ str_nat (length all_regressions) @ '' performance regressions'';
          summary_text = (if critical_regressions \<noteq> []
                          then summary_text @ '' ('' @ str_nat (length critical_regressions) @ '' critical)''
                          else summary_text)
      in \<lparr>summary = summary_text,
          regressions = all_regressions,
          criticalRegressions = critical_regressions,
          moderateRegressions = moderate_regressions,
          recommendations = generate_recommendations all_regressions,
          report_threshold = threshold self,
          report_timestamp = now\<rparr>)"

section \<open>Loading, saving and the entry point\<close>

text \<open>
  The file system is outside the program. What it answers is given: for the baseline
  path the parsed document, \<open>None\<close> when \<^verbatim>\<open>open\<close> or \<^verbatim>\<open>json.load\<close> raises; for
  each of the four glob patterns the matching files in the order \<^verbatim>\<open>glob.glob\<close>
  returns them, each with the same convention; and whether the report can be written.
\<close>

record current_files =
  lighthouse_files :: "lighthouse_item option list"
  load_test_files :: "load_item option list"
  benchmark_files :: "(string \<Rightarrow> bench_test option) option list"
  bundle_files :: "bundle_object option list"

record world =
  baseline_file :: "snapshot option"
  current_dir :: current_files
  write_ok :: "report \<Rightarrow> bool"
  now_load :: string
  now_report :: string

definition load_baseline :: "analyzer \<Rightarrow> snapshot option \<Rightarrow> bool \<times> analyzer" where
  "load_baseline self parsed =
     (case parsed of
        Some d \<Rightarrow> (True, self\<lparr>baseline_data := d\<rparr>)
      | None \<Rightarrow> (False, self))"

text \<open>Reading every file of a list: the first failure is the exception.\<close>

fun read_all :: "'a option list \<Rightarrow> 'a list option" where
  "read_all [] = Some []"
| "read_all (f # fs) =
     (case f of None \<Rightarrow> None
      | Some d \<Rightarrow> (case read_all fs of None \<Rightarrow> None | Some ds \<Rightarrow> Some (d # ds)))"

text \<open>Reading the first file only (\<^verbatim>\<open>break\<close>), with the value kept when there is none.\<close>

fun read_first :: "'a option list \<Rightarrow> 'a \<Rightarrow> 'a option" where
  "read_first [] dflt = Some dflt"
| "read_first (f # fs) dflt = f"

definition load_current_data :: "analyzer \<Rightarrow> current_files \<Rightarrow> string \<Rightarrow> bool \<times> analyzer" where
  "load_current_data self files now =
     (case read_all (lighthouse_files files) of
        None \<Rightarrow> (False, self)
      | Some lighthouse_data \<Rightarrow>
     (case read_all (load_test_files files) of
        None \<Rightarrow> (False, self)
      | Some load_test_data \<Rightarrow>
     (case read_first (benchmark_files files) (\<lambda>_. None) of
        None \<Rightarrow> (False, self)
      | Some benchmark_data \<Rightarrow>
     (case read_first (bundle_files files) empty_bundle of
        None \<Rightarrow> (False, self)
      | Some bundle_data \<Rightarrow>
          (True, self\<lparr>current_data :=
             \<lparr>lighthouse = Some lighthouse_data,
              loadTests = Some load_test_data,
              benchmarks = Some benchmark_data,
              bundle_summary = Some bundle_data,
              timestamp = Some now\<rparr>\<rparr>)))))"

definition save_report :: "(report \<Rightarrow> bool) \<Rightarrow> report \<Rightarrow> bool" where
  "save_report can_write rep = can_write rep"

text \<open>\<^verbatim>\<open>main\<close>: the value returned is the process exit code.\<close>

definition main :: "number \<Rightarrow> world \<Rightarrow> int" where
  "main args_threshold w =
     (let analyzer0 = init args_threshold;
          (loaded, analyzer1) = load_baseline analyzer0 (baseline_file w)
      in if \<not> loaded then 1
         else (let (loaded, analyzer2) = load_current_data analyzer1 (current_dir w) (now_load w)
               in if \<not> loaded then 1
                  else (let rep = analyze_regressions analyzer2 (now_report w)
                        in if \<not> save_report (write_ok w) rep then 1
                           else if criticalRegressions rep \<noteq> [] then 1
                           else 0)))"

section \<open>Notions used to state the properties\<close>

text \<open>
  The record each comparator appends, as a function of the values compared; the
  lemmas \<open>lighthouse_metric_step_eq\<close>, \<open>load_error_rate_step_eq\<close> and
  \<open>benchmark_result_step_eq\<close> below show that the loop bodies build exactly these.
  \<open>benchmark_results\<close> is \<^verbatim>\<open>benchmarks.get(t, {}).get('testResults', [])\<close>.
  \<open>benchmark_compared_spec\<close> and \<open>benchmark_flagged_spec\<close> follow the wording of the
  specification: the index pairs that are compared, and when a pair is flagged.
  The example snapshots are used to instantiate the theorems.
\<close>

definition lighthouse_record :: "string \<Rightarrow> string \<Rightarrow> number \<Rightarrow> number \<Rightarrow> regression" where
  "lighthouse_record key m bv cv =
     \<lparr>rtype = ''lighthouse'', metric = key @ ''-'' @ m, baseline = bv, current = cv,
      change = (bv - cv) / bv,
      severity = (if (bv - cv) / bv > 0.2 then ''critical'' else ''moderate''),
      description = ''Lighthouse '' @ m @ '' degraded by '' @ format_percent1 ((bv - cv) / bv)
                                    @ '' for '' @ key\<rparr>"


definition load_scenario_out :: "number \<Rightarrow> (string \<times> load_item) list \<Rightarrow> string \<times> load_item \<Rightarrow> regression list" where
  "load_scenario_out th cg e =
     (case map_of cg (fst e) of None \<Rightarrow> []
      | Some c \<Rightarrow> load_response_time_step th (fst e) (snd e) c []
                  @ load_error_rate_step (fst e) (snd e) c [])"

definition benchmark_results :: "snapshot \<Rightarrow> string \<Rightarrow> bench_result list" where
  "benchmark_results snap test_type =
     get_or (testResults (get_or (get_or (benchmarks snap) (\<lambda>_. None) test_type) empty_test)) []"

definition benchmark_record :: "string \<Rightarrow> nat \<Rightarrow> bench_result \<Rightarrow> bench_result \<Rightarrow> regression" where
  "benchmark_record test_type i b c =
     \<lparr>rtype = ''benchmark'',
      metric = test_type @ ''-'' @ get_or (title b) (test_type @ ''-test-'' @ str_nat i),
      baseline = get_or (duration b) 0,
      current = get_or (duration c) 0,
      change = (get_or (duration c) 0 - get_or (duration b) 0) / get_or (duration b) 0,
      severity = ''moderate'',
      description = ''Benchmark '' @ get_or (title b) (test_type @ ''-test-'' @ str_nat i)
        @ '' execution time increased by ''
        @ format_percent1 ((get_or (duration c) 0 - get_or (duration b) 0) / get_or (duration b) 0)\<rparr>"

definition benchmark_compared_spec :: "analyzer \<Rightarrow> (string \<times> nat) list" where
  "benchmark_compared_spec self =
     [(t, i). t \<leftarrow> [''memory'', ''cpu'', ''algorithm''],
              i \<leftarrow> [0..<min (length (benchmark_results (baseline_data self) t))
                            (length (benchmark_results (current_data self) t))]]"

definition benchmark_flagged_spec :: "number \<Rightarrow> bench_result \<Rightarrow> bench_result \<Rightarrow> bool" where
  "benchmark_flagged_spec th b c \<longleftrightarrow>
     0 < get_or (duration b) 0
     \<and> th < (get_or (duration c) 0 - get_or (duration b) 0) / get_or (duration b) 0"

definition benchmark_pair_out :: "number \<Rightarrow> string \<Rightarrow> nat \<Rightarrow> bench_result \<Rightarrow> bench_result \<Rightarrow> regression list" where
  "benchmark_pair_out th t i b c = (if benchmark_flagged_spec th b c then [benchmark_record t i b c] else [])"

definition example_baseline :: snapshot where
  "example_baseline =
     \<lparr>lighthouse = Some
        [\<lparr>device = Some ''mobile'', page = Some ''home'',
          scores = map_of [(''performance'', 50), (''seo'', 90)]\<rparr>,
         \<lparr>device = None, page = Some ''cart'', scores = map_of [(''performance'', 80)]\<rparr>,
         \<lparr>device = Some ''mobile'', page = Some ''home'',
          scores = map_of [(''performance'', 90), (''accessibility'', 100)]\<rparr>],
      loadTests = Some
        [\<lparr>scenario = Some ''checkout'',
          metrics = Some (map_of
            [(''http_req_duration'', map_of [(''avg'', 100)]),
             (''http_req_failed'', map_of [(''rate'', 0)])])\<rparr>],
      benchmarks = Some (map_of
        [(''memory'', \<lparr>testResults = Some
            [\<lparr>duration = Some 10, title = Some ''sort''\<rparr>,
             \<lparr>duration = Some 20, title = None\<rparr>,
             \<lparr>duration = Some 5, title = None\<rparr>],
           test_other_keys = True\<rparr>)]),
      bundle_summary = Some \<lparr>totalSize = Some 1000, bundle_other_keys = False\<rparr>,
      timestamp = None\<rparr>"





definition main_report :: "number \<Rightarrow> world \<Rightarrow> report" where
  "main_report args_threshold w =
     analyze_regressions
       (snd (load_current_data (snd (load_baseline (init args_threshold) (baseline_file w)))
          (current_dir w) (now_load w)))
       (now_report w)"

definition example_world :: world where
  "example_world =
     \<lparr>baseline_file = Some example_baseline,
      current_dir =
        \<lparr>lighthouse_files = [], load_test_files = [], benchmark_files = [],
         bundle_files = [Some \<lparr>totalSize = Some 1150, bundle_other_keys = False\<rparr>]\<rparr>,
      write_ok = (\<lambda>_. True),
      now_load = ''2024-01-01T00:00:00'',
      now_report = ''2024-01-01T00:00:01''\<rparr>"


section \<open>Properties\<close>

subsection \<open>Loops as concatenations\<close>

lemma foldl_append_concat:
  assumes "\<And>acc x. f acc x = acc @ g x"
  shows "foldl f acc xs = acc @ concat (map g xs)"
  by (induction xs arbitrary: acc) (simp_all add: assms)

lemma critical_neq_moderate: "''critical'' \<noteq> ''moderate''"
  by simp

lemma mset_filter_split:
  assumes "\<And>x. x \<in> set xs \<Longrightarrow> P x \<noteq> Q x"
  shows "mset (filter P xs) + mset (filter Q xs) = mset xs"
  using assms by (induction xs) auto

lemma lighthouse_metric_step_append:
  "lighthouse_metric_step th k b c regs m = regs @ lighthouse_metric_step th k b c [] m"
  by (simp add: lighthouse_metric_step_def Let_def)

lemma lighthouse_key_step_append:
  "lighthouse_key_step th cg regs e = regs @ lighthouse_key_step th cg [] e"
proof (cases "map_of cg (fst e)")
  case None
  then show ?thesis by (simp add: lighthouse_key_step_def)
next
  case (Some c)
  have "foldl (lighthouse_metric_step th (fst e) (snd e) c) acc ms
      = acc @ concat (map (lighthouse_metric_step th (fst e) (snd e) c []) ms)" for acc ms
    by (rule foldl_append_concat) (rule lighthouse_metric_step_append)
  then show ?thesis using Some by (simp add: lighthouse_key_step_def)
qed

lemma analyze_lighthouse_concat:
  "analyze_lighthouse_regression self =
     concat (map (lighthouse_key_step (threshold self) (lighthouse_current_grouped self) [])
       (lighthouse_baseline_grouped self))"
proof -
  have "foldl (lighthouse_key_step th cg) [] es = [] @ concat (map (lighthouse_key_step th cg []) es)"
    for th cg es
    by (rule foldl_append_concat) (rule lighthouse_key_step_append)
  then show ?thesis by (simp add: analyze_lighthouse_regression_def)
qed

lemma lighthouse_key_step_concat:
  "lighthouse_key_step th cg [] e =
     (case map_of cg (fst e) of None \<Rightarrow> []
      | Some c \<Rightarrow> concat (map (lighthouse_metric_step th (fst e) (snd e) c []) lighthouse_metrics))"
proof (cases "map_of cg (fst e)")
  case None
  then show ?thesis by (simp add: lighthouse_key_step_def)
next
  case (Some c)
  have "foldl (lighthouse_metric_step th (fst e) (snd e) c) [] ms
      = [] @ concat (map (lighthouse_metric_step th (fst e) (snd e) c []) ms)" for ms
    by (rule foldl_append_concat) (rule lighthouse_metric_step_append)
  then show ?thesis using Some by (simp add: lighthouse_key_step_def)
qed


lemma distinct_foldl_update:
  "distinct (map fst g0) \<Longrightarrow> distinct (map fst (foldl (\<lambda>g item. AList.update (kf item) item g) g0 items))"
  by (induction items arbitrary: g0) (simp_all add: distinct_update)

lemma distinct_group_lighthouse: "distinct (map fst (group_lighthouse items))"
  unfolding group_lighthouse_def by (rule distinct_foldl_update) simp


lemma lighthouse_metric_step_eq:
  "lighthouse_metric_step th k b c [] m =
     (if 0 < get_or (scores b m) 0
         \<and> th < (get_or (scores b m) 0 - get_or (scores c m) 0) / get_or (scores b m) 0
      then [lighthouse_record k m (get_or (scores b m) 0) (get_or (scores c m) 0)] else [])"
  by (simp add: lighthouse_metric_step_def lighthouse_record_def Let_def)

lemma lighthouse_member:
  "r \<in> set (analyze_lighthouse_regression self) \<longleftrightarrow>
     (\<exists>k b c m. map_of (lighthouse_baseline_grouped self) k = Some b
        \<and> map_of (lighthouse_current_grouped self) k = Some c
        \<and> m \<in> set lighthouse_metrics
        \<and> r \<in> set (lighthouse_metric_step (threshold self) k b c [] m))"
  (is "?L \<longleftrightarrow> ?R")
proof
  assume ?L
  then obtain e where e: "e \<in> set (lighthouse_baseline_grouped self)"
    and r: "r \<in> set (lighthouse_key_step (threshold self) (lighthouse_current_grouped self) [] e)"
    by (auto simp: analyze_lighthouse_concat)
  from e have "map_of (lighthouse_baseline_grouped self) (fst e) = Some (snd e)"
    by (simp add: lighthouse_baseline_grouped_def distinct_group_lighthouse)
  moreover from r obtain c m where "map_of (lighthouse_current_grouped self) (fst e) = Some c"
    and "m \<in> set lighthouse_metrics"
    and "r \<in> set (lighthouse_metric_step (threshold self) (fst e) (snd e) c [] m)"
    by (cases "map_of (lighthouse_current_grouped self) (fst e)")
       (auto simp: lighthouse_key_step_concat)
  ultimately show ?R by blast
next
  assume ?R
  then obtain k b c m where b: "map_of (lighthouse_baseline_grouped self) k = Some b"
    and c: "map_of (lighthouse_current_grouped self) k = Some c"
    and m: "m \<in> set lighthouse_metrics"
    and r: "r \<in> set (lighthouse_metric_step (threshold self) k b c [] m)"
    by blast
  from b have "(k, b) \<in> set (lighthouse_baseline_grouped self)"
    by (rule map_of_SomeD)
  moreover from c m r
  have "r \<in> set (lighthouse_key_step (threshold self) (lighthouse_current_grouped self) [] (k, b))"
    by (auto simp: lighthouse_key_step_concat)
  ultimately show ?L
    by (auto simp: analyze_lighthouse_concat)
qed



lemma distinct_group_load: "distinct (map fst (group_load items))"
  unfolding group_load_def by (rule distinct_foldl_update) simp

lemma load_response_time_step_append:
  "load_response_time_step th s b c regs = regs @ load_response_time_step th s b c []"
  by (simp add: load_response_time_step_def Let_def)

lemma load_error_rate_step_append:
  "load_error_rate_step s b c regs = regs @ load_error_rate_step s b c []"
  by (simp add: load_error_rate_step_def Let_def)


lemma load_scenario_step_eq:
  "load_scenario_step th cg regs e = regs @
     (case map_of cg (fst e) of None \<Rightarrow> []
      | Some c \<Rightarrow> load_response_time_step th (fst e) (snd e) c []
                  @ load_error_rate_step (fst e) (snd e) c [])"
proof (cases "map_of cg (fst e)")
  case None
  then show ?thesis by (simp add: load_scenario_step_def)
next
  case (Some c)
  have "load_scenario_step th cg regs e =
      load_error_rate_step (fst e) (snd e) c (load_response_time_step th (fst e) (snd e) c regs)"
    using Some by (simp add: load_scenario_step_def)
  also have "\<dots> = load_response_time_step th (fst e) (snd e) c regs
      @ load_error_rate_step (fst e) (snd e) c []"
    by (rule load_error_rate_step_append)
  also have "\<dots> = (regs @ load_response_time_step th (fst e) (snd e) c [])
      @ load_error_rate_step (fst e) (snd e) c []"
    by (simp only: load_response_time_step_append [of th "fst e" "snd e" c regs])
  finally show ?thesis using Some by simp
qed

lemma analyze_load_test_concat:
  "analyze_load_test_regression self =
     concat (map (load_scenario_out (threshold self) (load_current_grouped self))
       (load_baseline_grouped self))"
proof -
  have "foldl (load_scenario_step th cg) [] es = [] @ concat (map (load_scenario_out th cg) es)"
    for th cg es
    by (rule foldl_append_concat) (simp add: load_scenario_out_def load_scenario_step_eq)
  then show ?thesis by (simp add: analyze_load_test_regression_def)
qed




lemma load_member:
  "r \<in> set (analyze_load_test_regression self) \<longleftrightarrow>
     (\<exists>s b c. map_of (load_baseline_grouped self) s = Some b
        \<and> map_of (load_current_grouped self) s = Some c
        \<and> (r \<in> set (load_response_time_step (threshold self) s b c [])
           \<or> r \<in> set (load_error_rate_step s b c [])))"
  (is "?L \<longleftrightarrow> ?R")
proof
  assume ?L
  then obtain e where e: "e \<in> set (load_baseline_grouped self)"
    and r: "r \<in> set (load_scenario_out (threshold self) (load_current_grouped self) e)"
    by (auto simp: analyze_load_test_concat)
  from e have "map_of (load_baseline_grouped self) (fst e) = Some (snd e)"
    by (simp add: load_baseline_grouped_def distinct_group_load)
  moreover from r obtain c where "map_of (load_current_grouped self) (fst e) = Some c"
    and "r \<in> set (load_response_time_step (threshold self) (fst e) (snd e) c [])
           \<or> r \<in> set (load_error_rate_step (fst e) (snd e) c [])"
    by (cases "map_of (load_current_grouped self) (fst e)") (auto simp: load_scenario_out_def)
  ultimately show ?R by blast
next
  assume ?R
  then obtain s b c where b: "map_of (load_baseline_grouped self) s = Some b"
    and c: "map_of (load_current_grouped self) s = Some c"
    and r: "r \<in> set (load_response_time_step (threshold self) s b c [])
           \<or> r \<in> set (load_error_rate_step s b c [])"
    by blast
  from b have "(s, b) \<in> set (load_baseline_grouped self)"
    by (rule map_of_SomeD)
  moreover from c r
  have "r \<in> set (load_scenario_out (threshold self) (load_current_grouped self) (s, b))"
    by (auto simp: load_scenario_out_def)
  ultimately show ?L
    by (auto simp: analyze_load_test_concat)
qed






lemma benchmark_result_step_eq:
  "benchmark_result_step th t cs regs e = regs @
     (if fst e < length cs then benchmark_pair_out th t (fst e) (snd e) (cs ! fst e) else [])"
  by (simp add: benchmark_result_step_def benchmark_pair_out_def benchmark_flagged_spec_def
      benchmark_record_def Let_def)

lemma concat_map_upt_guard:
  "concat (map (\<lambda>i. if i < m then f i else []) [0..<n]) = concat (map f [0..<min n m])"
proof (induction n)
  case 0
  then show ?case by simp
next
  case (Suc n)
  show ?case
  proof (cases "n < m")
    case True
    then have "min (Suc n) m = Suc n" and "min n m = n" by simp_all
    with Suc True show ?thesis by simp
  next
    case False
    then have "min (Suc n) m = min n m" by simp
    with Suc False show ?thesis by simp
  qed
qed

lemma enumerate_map_nth: "enumerate 0 xs = map (\<lambda>i. (i, xs ! i)) [0..<length xs]"
  by (rule nth_equalityI) (simp_all add: nth_enumerate_eq)

lemma benchmark_results_loop:
  "foldl (benchmark_result_step th t cs) regs (enumerate 0 bs) = regs @
     concat (map (\<lambda>i. benchmark_pair_out th t i (bs ! i) (cs ! i)) [0..<min (length bs) (length cs)])"
proof -
  have "foldl (benchmark_result_step th t cs) regs es = regs @
      concat (map (\<lambda>e. if fst e < length cs
                        then benchmark_pair_out th t (fst e) (snd e) (cs ! fst e) else []) es)" for es
    by (rule foldl_append_concat) (rule benchmark_result_step_eq)
  then show ?thesis
    by (simp add: enumerate_map_nth comp_def concat_map_upt_guard)
qed

lemma benchmark_type_step_eq:
  "benchmark_type_step th bb cb regs t = regs @
     concat (map (\<lambda>i. benchmark_pair_out th t i
                   (get_or (testResults (get_or (bb t) empty_test)) [] ! i)
                   (get_or (testResults (get_or (cb t) empty_test)) [] ! i))
       [0..<min (length (get_or (testResults (get_or (bb t) empty_test)) []))
                (length (get_or (testResults (get_or (cb t) empty_test)) []))])"
proof (cases "test_is_empty (get_or (bb t) empty_test) \<or> test_is_empty (get_or (cb t) empty_test)")
  case True
  then have "get_or (testResults (get_or (bb t) empty_test)) [] = []
      \<or> get_or (testResults (get_or (cb t) empty_test)) [] = []"
    by (auto simp: test_is_empty_def get_or_def)
  then have "min (length (get_or (testResults (get_or (bb t) empty_test)) []))
                (length (get_or (testResults (get_or (cb t) empty_test)) [])) = 0"
    by auto
  with True show ?thesis
    by (simp add: benchmark_type_step_def Let_def)
next
  case False
  then show ?thesis
    by (simp add: benchmark_type_step_def Let_def benchmark_results_loop)
qed

lemma analyze_benchmark_concat:
  "analyze_benchmark_regression self =
     concat (map (\<lambda>t. concat (map (\<lambda>i. benchmark_pair_out (threshold self) t i
                   (benchmark_results (baseline_data self) t ! i)
                   (benchmark_results (current_data self) t ! i))
       [0..<min (length (benchmark_results (baseline_data self) t))
                (length (benchmark_results (current_data self) t))])) benchmark_types)"
proof -
  have "foldl (benchmark_type_step th bb cb) [] ts = [] @ concat (map (\<lambda>t.
     concat (map (\<lambda>i. benchmark_pair_out th t i
                   (get_or (testResults (get_or (bb t) empty_test)) [] ! i)
                   (get_or (testResults (get_or (cb t) empty_test)) [] ! i))
       [0..<min (length (get_or (testResults (get_or (bb t) empty_test)) []))
                (length (get_or (testResults (get_or (cb t) empty_test)) []))])) ts)" for th bb cb ts
    by (rule foldl_append_concat) (rule benchmark_type_step_eq)
  then show ?thesis
    by (simp add: analyze_benchmark_regression_def benchmark_results_def Let_def)
qed

lemma analyze_benchmark_spec:
  "analyze_benchmark_regression self =
     concat (map (\<lambda>(t, i). if benchmark_flagged_spec (threshold self)
                                 (benchmark_results (baseline_data self) t ! i)
                                 (benchmark_results (current_data self) t ! i)
                            then [benchmark_record t i (benchmark_results (baseline_data self) t ! i)
                                    (benchmark_results (current_data self) t ! i)]
                            else [])
       (benchmark_compared_spec self))"
  by (simp add: analyze_benchmark_concat benchmark_compared_spec_def benchmark_types_def
      benchmark_pair_out_def comp_def map_concat)


subsection \<open>The bundle comparator on a concrete input\<close>

text \<open>
  Claim C8. With a baseline bundle of \<^verbatim>\<open>totalSize\<close> 1000, a current bundle of
  \<^verbatim>\<open>totalSize\<close> 1150 and threshold 0.1, whatever else the two snapshots hold, the bundle
  comparator returns exactly one regression; its change is 0.15, its severity is
  \<^verbatim>\<open>moderate\<close> and its description contains \<^verbatim>\<open>150 bytes\<close>.
\<close>

theorem bundle_example:
  "analyze_bundle_regression
     \<lparr>threshold = 0.1,
      baseline_data = bd\<lparr>bundle_summary := Some (bb\<lparr>totalSize := Some 1000\<rparr>)\<rparr>,
      current_data = cd\<lparr>bundle_summary := Some (cb\<lparr>totalSize := Some 1150\<rparr>)\<rparr>\<rparr>
   = [\<lparr>rtype = ''bundle'', metric = ''total_size'', baseline = 1000, current = 1150,
       change = 0.15, severity = ''moderate'',
       description = ''Bundle size increased by 15.0% (150 bytes)''\<rparr>]
   \<and> sublist ''150 bytes'' ''Bundle size increased by 15.0% (150 bytes)''"
proof
  have "format_percent1 (3 / 20) = ''15.0%''"
    by (simp add: format_percent1_def round_half_even_def Let_def str_nat.simps digit_char_def)
  moreover have "str_int 150 = ''150''"
    by (simp add: str_int_def str_nat.simps digit_char_def)
  ultimately show "analyze_bundle_regression
     \<lparr>threshold = 0.1,
      baseline_data = bd\<lparr>bundle_summary := Some (bb\<lparr>totalSize := Some 1000\<rparr>)\<rparr>,
      current_data = cd\<lparr>bundle_summary := Some (cb\<lparr>totalSize := Some 1150\<rparr>)\<rparr>\<rparr>
   = [\<lparr>rtype = ''bundle'', metric = ''total_size'', baseline = 1000, current = 1150,
       change = 0.15, severity = ''moderate'',
       description = ''Bundle size increased by 15.0% (150 bytes)''\<rparr>]"
    by (simp add: analyze_bundle_regression_def bundle_is_empty_def get_or_def Let_def)
  have "''Bundle size increased by 15.0% (150 bytes)''
      = ''Bundle size increased by 15.0% ('' @ ''150 bytes'' @ '')''"
    by simp
  then show "sublist ''150 bytes'' ''Bundle size increased by 15.0% (150 bytes)''"
    unfolding sublist_def by blast
qed

subsection \<open>Keys of the grouped snapshots\<close>



subsection \<open>Page-audit regressions\<close>



subsection \<open>Error-rate regressions\<close>



subsection \<open>Benchmark regressions\<close>



lemma lighthouse_fields:
  assumes "r \<in> set (analyze_lighthouse_regression self)"
  shows "rtype r = ''lighthouse'' \<and> (severity r = ''critical'' \<or> severity r = ''moderate'')"
proof -
  from assms obtain k b c m where "r \<in> set (lighthouse_metric_step (threshold self) k b c [] m)"
    unfolding lighthouse_member by blast
  then show ?thesis
    by (auto simp: lighthouse_metric_step_eq lighthouse_record_def split: if_splits)
qed

lemma load_fields:
  assumes "r \<in> set (analyze_load_test_regression self)"
  shows "rtype r = ''load_test'' \<and> (severity r = ''critical'' \<or> severity r = ''moderate'')"
proof -
  from assms obtain s b c where "r \<in> set (load_response_time_step (threshold self) s b c [])
           \<or> r \<in> set (load_error_rate_step s b c [])"
    unfolding load_member by blast
  then show ?thesis
    by (auto simp: load_response_time_step_def load_error_rate_step_def Let_def split: if_splits)
qed

lemma benchmark_fields:
  assumes "r \<in> set (analyze_benchmark_regression self)"
  shows "rtype r = ''benchmark'' \<and> severity r = ''moderate''"
  using assms unfolding analyze_benchmark_spec
  by (auto simp: benchmark_record_def split: if_splits)

lemma bundle_fields:
  assumes "r \<in> set (analyze_bundle_regression self)"
  shows "rtype r = ''bundle'' \<and> severity r = ''moderate''"
  using assms
  by (auto simp: analyze_bundle_regression_def Let_def split: if_splits)

lemma regressions_append:
  "regressions (analyze_regressions self now) =
     analyze_lighthouse_regression self @ analyze_load_test_regression self
       @ analyze_benchmark_regression self @ analyze_bundle_regression self"
  by (simp add: analyze_regressions_def Let_def)

lemma report_fields:
  "criticalRegressions (analyze_regressions self now)
     = filter (\<lambda>r. severity r = ''critical'') (regressions (analyze_regressions self now))"
  "moderateRegressions (analyze_regressions self now)
     = filter (\<lambda>r. severity r = ''moderate'') (regressions (analyze_regressions self now))"
  "recommendations (analyze_regressions self now)
     = generate_recommendations (regressions (analyze_regressions self now))"
  by (simp_all add: analyze_regressions_def Let_def)

lemma report_severities:
  assumes "r \<in> set (regressions (analyze_regressions self now))"
  shows "severity r = ''critical'' \<or> severity r = ''moderate''"
  using assms lighthouse_fields load_fields benchmark_fields bundle_fields
  unfolding regressions_append by fastforce


subsection \<open>The report\<close>

text \<open>
  Claim C3. In every report built by \<open>analyze_regressions\<close>, the lists
  \<^verbatim>\<open>criticalRegressions\<close> and \<^verbatim>\<open>moderateRegressions\<close> partition
  \<^verbatim>\<open>regressions\<close>: counted with multiplicity, the records of the two lists together
  are the records of \<^verbatim>\<open>regressions\<close>; no record is in both lists; and the union of
  the two lists is \<^verbatim>\<open>regressions\<close>.
\<close>

theorem severity_partition:
  "mset (criticalRegressions (analyze_regressions self now))
     + mset (moderateRegressions (analyze_regressions self now))
     = mset (regressions (analyze_regressions self now))
   \<and> set (criticalRegressions (analyze_regressions self now))
       \<inter> set (moderateRegressions (analyze_regressions self now)) = {}
   \<and> set (criticalRegressions (analyze_regressions self now))
       \<union> set (moderateRegressions (analyze_regressions self now))
     = set (regressions (analyze_regressions self now))"
proof (intro conjI)
  let ?regs = "regressions (analyze_regressions self now)"
  have one: "(severity r = ''critical'') \<noteq> (severity r = ''moderate'')" if "r \<in> set ?regs" for r
    using report_severities [OF that] by auto
  show "mset (criticalRegressions (analyze_regressions self now))
     + mset (moderateRegressions (analyze_regressions self now)) = mset ?regs"
    unfolding report_fields by (rule mset_filter_split) (rule one)
  show "set (criticalRegressions (analyze_regressions self now))
       \<inter> set (moderateRegressions (analyze_regressions self now)) = {}"
    unfolding report_fields by auto
  show "set (criticalRegressions (analyze_regressions self now))
       \<union> set (moderateRegressions (analyze_regressions self now)) = set ?regs"
    unfolding report_fields using report_severities by auto
qed



text \<open>
  Claim C5. When loading the baseline, loading the current data and writing the
  report all succeed, the exit code is 1 if the report holds a regression of severity
  \<^verbatim>\<open>critical\<close> and 0 otherwise, whatever the number of moderate regressions.
\<close>

theorem exit_code_critical:
  assumes "fst (load_baseline (init th) (baseline_file w))"
    and "fst (load_current_data (snd (load_baseline (init th) (baseline_file w)))
               (current_dir w) (now_load w))"
    and "save_report (write_ok w) (main_report th w)"
  shows "main th w = (if \<exists>r\<in>set (regressions (main_report th w)). severity r = ''critical''
                      then 1 else 0)"
proof -
  have "criticalRegressions (main_report th w) \<noteq> [] \<longleftrightarrow>
      (\<exists>r\<in>set (regressions (main_report th w)). severity r = ''critical'')"
    unfolding main_report_def report_fields by (auto simp: filter_empty_conv)
  with assms show ?thesis
    by (auto simp: main_def main_report_def Let_def split: prod.splits)
qed

theorem exit_code_critical_witness:
  "main 0.1 example_world = 0
   \<and> map severity (regressions (main_report 0.1 example_world)) = [''moderate'']"
proof -
  have sev: "map severity (regressions (main_report 0.1 example_world)) = [''moderate'']"
    by code_simp
  have 1: "fst (load_baseline (init 0.1) (baseline_file example_world))"
    by (simp add: load_baseline_def example_world_def)
  have 2: "fst (load_current_data (snd (load_baseline (init 0.1) (baseline_file example_world)))
               (current_dir example_world) (now_load example_world))"
    by (simp add: load_current_data_def example_world_def)
  have 3: "save_report (write_ok example_world) (main_report 0.1 example_world)"
    by (simp add: save_report_def example_world_def)
  have "\<not> (\<exists>r\<in>set (regressions (main_report 0.1 example_world)). severity r = ''critical'')"
  proof
    assume "\<exists>r\<in>set (regressions (main_report 0.1 example_world)). severity r = ''critical''"
    then have "''critical'' \<in> set (map severity (regressions (main_report 0.1 example_world)))"
      by force
    then show False unfolding sev by simp
  qed
  with exit_code_critical [OF 1 2 3] sev show ?thesis by simp
qed


lemma lighthouse_timestamp_free:
  "analyze_lighthouse_regression
     (self\<lparr>baseline_data := (baseline_data self)\<lparr>timestamp := tb\<rparr>,
           current_data := (current_data self)\<lparr>timestamp := tc\<rparr>\<rparr>)
   = analyze_lighthouse_regression self"
  by (simp add: analyze_lighthouse_regression_def lighthouse_baseline_grouped_def
      lighthouse_current_grouped_def)

lemma load_timestamp_free:
  "analyze_load_test_regression
     (self\<lparr>baseline_data := (baseline_data self)\<lparr>timestamp := tb\<rparr>,
           current_data := (current_data self)\<lparr>timestamp := tc\<rparr>\<rparr>)
   = analyze_load_test_regression self"
  by (simp add: analyze_load_test_regression_def load_baseline_grouped_def
      load_current_grouped_def)

lemma benchmark_timestamp_free:
  "analyze_benchmark_regression
     (self\<lparr>baseline_data := (baseline_data self)\<lparr>timestamp := tb\<rparr>,
           current_data := (current_data self)\<lparr>timestamp := tc\<rparr>\<rparr>)
   = analyze_benchmark_regression self"
  by (simp add: analyze_benchmark_regression_def Let_def)

lemma bundle_timestamp_free:
  "analyze_bundle_regression
     (self\<lparr>baseline_data := (baseline_data self)\<lparr>timestamp := tb\<rparr>,
           current_data := (current_data self)\<lparr>timestamp := tc\<rparr>\<rparr>)
   = analyze_bundle_regression self"
  by (simp add: analyze_bundle_regression_def Let_def)

lemma report_timestamp_free:
  "analyze_regressions
     (self\<lparr>baseline_data := (baseline_data self)\<lparr>timestamp := tb\<rparr>,
           current_data := (current_data self)\<lparr>timestamp := tc\<rparr>\<rparr>) now'
   = (analyze_regressions self now)\<lparr>report_timestamp := now'\<rparr>"
  unfolding analyze_regressions_def lighthouse_timestamp_free load_timestamp_free
    benchmark_timestamp_free bundle_timestamp_free
  by (simp add: Let_def)

lemma load_current_data_clock:
  "load_current_data self files t' =
     (fst (load_current_data self files t),
      if fst (load_current_data self files t)
      then (snd (load_current_data self files t))
             \<lparr>current_data := (current_data (snd (load_current_data self files t)))\<lparr>timestamp := Some t'\<rparr>\<rparr>
      else self)"
  by (simp add: load_current_data_def split: option.splits)

text \<open>
  Claim C9. Two runs on the same snapshot data and threshold, which can differ only in
  what the clock returned (the time stamp put into the current snapshot by the loader
  and the one put into the report), give the same \<^verbatim>\<open>regressions\<close>,
  \<^verbatim>\<open>criticalRegressions\<close>, \<^verbatim>\<open>moderateRegressions\<close> and
  \<^verbatim>\<open>recommendations\<close>, and also the same summary and threshold.
\<close>

theorem analysis_deterministic:
  "(let r1 = analyze_regressions self now;
        r2 = analyze_regressions
               (self\<lparr>baseline_data := (baseline_data self)\<lparr>timestamp := tb\<rparr>,
                     current_data := (current_data self)\<lparr>timestamp := tc\<rparr>\<rparr>) now'
    in regressions r1 = regressions r2
       \<and> criticalRegressions r1 = criticalRegressions r2
       \<and> moderateRegressions r1 = moderateRegressions r2
       \<and> recommendations r1 = recommendations r2
       \<and> summary r1 = summary r2
       \<and> report_threshold r1 = report_threshold r2)
   \<and> (let r1 = analyze_regressions (snd (load_current_data self files t)) now;
          r2 = analyze_regressions (snd (load_current_data self files t')) now'
      in regressions r1 = regressions r2
         \<and> criticalRegressions r1 = criticalRegressions r2
         \<and> moderateRegressions r1 = moderateRegressions r2
         \<and> recommendations r1 = recommendations r2
         \<and> summary r1 = summary r2
         \<and> report_threshold r1 = report_threshold r2)"
proof
  show "let r1 = analyze_regressions self now;
        r2 = analyze_regressions
               (self\<lparr>baseline_data := (baseline_data self)\<lparr>timestamp := tb\<rparr>,
                     current_data := (current_data self)\<lparr>timestamp := tc\<rparr>\<rparr>) now'
    in regressions r1 = regressions r2
       \<and> criticalRegressions r1 = criticalRegressions r2
       \<and> moderateRegressions r1 = moderateRegressions r2
       \<and> recommendations r1 = recommendations r2
       \<and> summary r1 = summary r2
       \<and> report_threshold r1 = report_threshold r2"
    using report_timestamp_free [where self = self and tb = tb and tc = tc and now' = now' and now = now] by (simp add: Let_def)
next
  let ?a = "snd (load_current_data self files t)"
  have "analyze_regressions (snd (load_current_data self files t')) now'
      = (analyze_regressions ?a now)\<lparr>report_timestamp := now'\<rparr>"
  proof (cases "fst (load_current_data self files t)")
    case True
    then have "snd (load_current_data self files t')
        = ?a\<lparr>current_data := (current_data ?a)\<lparr>timestamp := Some t'\<rparr>\<rparr>"
      by (subst load_current_data_clock [of self files t' t]) simp
    also have "\<dots> = ?a\<lparr>baseline_data := (baseline_data ?a)\<lparr>timestamp := timestamp (baseline_data ?a)\<rparr>,
                        current_data := (current_data ?a)\<lparr>timestamp := Some t'\<rparr>\<rparr>"
      by simp
    finally show ?thesis
      using report_timestamp_free [where self = ?a and tb = "timestamp (baseline_data ?a)"
          and tc = "Some t'" and now' = now' and now = now]
      by simp
  next
    case False
    then have "snd (load_current_data self files t') = self" and "?a = self"
      by (simp_all add: load_current_data_def split: option.splits)
    then show ?thesis
      using report_timestamp_free [where self = self and tb = "timestamp (baseline_data self)"
          and tc = "timestamp (current_data self)" and now' = now' and now = now]
      by simp
  qed
  then show "let r1 = analyze_regressions (snd (load_current_data self files t)) now;
          r2 = analyze_regressions (snd (load_current_data self files t')) now'
      in regressions r1 = regressions r2
         \<and> criticalRegressions r1 = criticalRegressions r2
         \<and> moderateRegressions r1 = moderateRegressions r2
         \<and> recommendations r1 = recommendations r2
         \<and> summary r1 = summary r2
         \<and> report_threshold r1 = report_threshold r2"
    by (simp add: Let_def)
qed

subsection \<open>Absent score fields\<close>




subsection \<open>Duplicate keys\<close>






















end
